theory Spec2Isabelle
  imports Complex_Main "HOL-Library.Char_ord"
begin

section \<open>The learning tracker: a shallow embedding of \<open>server.js\<close>\<close>

text \<open>
  The server is one Express application over one Mongoose model. Each route handler is
  embedded as a function from the environment, the collection and the request to the
  response and the collection afterwards. Exceptions are values of the sum type
  \<open>exn + 'a\<close>; the \<open>try\<close>/\<open>catch\<close> of every handler turns \<open>Inl\<close> into the 500 response.

  What the handlers take from the host and from the libraries is collected in the record
  \<open>env\<close>: the rounding of an exact arithmetic result to a double, the host's
  \<open>Date.parse\<close>, the driver's cast of a string to an ObjectId, the identifier given to
  a new document, and the readings of the clock. Numbers are the
  exact rational values of doubles, with \<open>NaN\<close> and the two infinities beside them.
  Strings are lists of 8-bit characters, read as the code units U+0000 to U+00FF.
  Request bodies are objects whose properties hold JSON primitives; the store is taken
  to be reachable.
\<close>

subsection \<open>JavaScript values\<close>

datatype jsnum = NaN | PosInfinity | NegInfinity | Val rat

datatype jsval = Undefined | Null | Boolean bool | Number jsnum | Str string

datatype exn = TypeError | CastError | ValidationError

record env =
  rnd :: "rat \<Rightarrow> rat"
  Date_parse :: "string \<Rightarrow> int option"
  castObjectId :: "string \<Rightarrow> string option"
  newObjectId :: string
  nowCheck :: int
  nowDefault :: int
  nowValidate :: int
  nowStamp :: int

text \<open>\<open>!v\<close> is \<open>\<not> truthy v\<close>.\<close>

fun truthy :: "jsval \<Rightarrow> bool" where
  "truthy Undefined = False"
| "truthy Null = False"
| "truthy (Boolean b) = b"
| "truthy (Number n) = (n \<noteq> NaN \<and> n \<noteq> Val 0)"
| "truthy (Str s) = (s \<noteq> [])"

text \<open>The comparison \<open>x < y\<close> of two numbers; it is false when either is \<open>NaN\<close>.\<close>

fun numLess :: "jsnum \<Rightarrow> jsnum \<Rightarrow> bool" where
  "numLess NaN _ = False"
| "numLess _ NaN = False"
| "numLess PosInfinity _ = False"
| "numLess _ PosInfinity = True"
| "numLess _ NegInfinity = False"
| "numLess NegInfinity _ = True"
| "numLess (Val a) (Val b) = (a < b)"

definition numLessEq :: "jsnum \<Rightarrow> jsnum \<Rightarrow> bool" where
  "numLessEq x y = (x \<noteq> NaN \<and> y \<noteq> NaN \<and> \<not> numLess y x)"

fun negate :: "jsnum \<Rightarrow> jsnum" where
  "negate NaN = NaN"
| "negate PosInfinity = NegInfinity"
| "negate NegInfinity = PosInfinity"
| "negate (Val q) = Val (- q)"

fun roundNum :: "env \<Rightarrow> jsnum \<Rightarrow> jsnum" where
  "roundNum E (Val q) = Val (rnd E q)"
| "roundNum E n = n"

subsection \<open>Strings: \<open>trim\<close>, \<open>parseFloat\<close> and the conversion to a number\<close>

definition isWhiteSpace :: "char \<Rightarrow> bool" where
  "isWhiteSpace c = (of_char c \<in> {9, 10, 11, 12, 13, 32, 160 :: nat})"

definition trim :: "string \<Rightarrow> string" where
  "trim s = rev (dropWhile isWhiteSpace (rev (dropWhile isWhiteSpace s)))"

text \<open>The method call \<open>v.trim()\<close>: only a string has the method.\<close>

fun callTrim :: "jsval \<Rightarrow> exn + string" where
  "callTrim (Str s) = Inr (trim s)"
| "callTrim _ = Inl TypeError"

definition isDigit :: "char \<Rightarrow> bool" where
  "isDigit c = (48 \<le> (of_char c :: nat) \<and> (of_char c :: nat) \<le> 57)"

definition hexVal :: "char \<Rightarrow> nat option" where
  "hexVal c =
     (let n = (of_char c :: nat) in
      if 48 \<le> n \<and> n \<le> 57 then Some (n - 48)
      else if 97 \<le> n \<and> n \<le> 102 then Some (n - 87)
      else if 65 \<le> n \<and> n \<le> 70 then Some (n - 55)
      else None)"

definition isRadixDigit :: "nat \<Rightarrow> char \<Rightarrow> bool" where
  "isRadixDigit radix c = (case hexVal c of None \<Rightarrow> False | Some d \<Rightarrow> d < radix)"

definition radixVal :: "nat \<Rightarrow> string \<Rightarrow> nat" where
  "radixVal radix ds = foldl (\<lambda>n c. radix * n + (case hexVal c of None \<Rightarrow> 0 | Some d \<Rightarrow> d)) 0 ds"

definition digitsVal :: "string \<Rightarrow> nat" where
  "digitsVal ds = radixVal 10 ds"

definition scanSign :: "string \<Rightarrow> int \<times> string" where
  "scanSign cs =
     (case cs of
        [] \<Rightarrow> (1, cs)
      | c # r \<Rightarrow> if c = CHR ''+'' then (1, r) else if c = CHR ''-'' then (- 1, r) else (1, cs))"

text \<open>An exponent part is taken only when it has a digit; otherwise nothing is consumed.\<close>

definition scanExponent :: "string \<Rightarrow> int \<times> string" where
  "scanExponent cs =
     (case cs of
        [] \<Rightarrow> (0, cs)
      | c # r \<Rightarrow>
          if c = CHR ''e'' \<or> c = CHR ''E'' then
            (case scanSign r of (sg, r1) \<Rightarrow>
               if takeWhile isDigit r1 = [] then (0, cs)
               else (sg * int (digitsVal (takeWhile isDigit r1)), dropWhile isDigit r1))
          else (0, cs))"

definition pow10 :: "int \<Rightarrow> rat" where
  "pow10 e = (if 0 \<le> e then 10 ^ nat e else 1 / 10 ^ nat (- e))"

text \<open>
  The longest prefix that is an unsigned decimal literal of the string grammar
  (\<open>Infinity\<close>, \<open>d.d\<close>, \<open>d.\<close>, \<open>.d\<close> or \<open>d\<close>, each with an optional exponent), with
  its exact value and the rest of the string.
\<close>

definition scanUnsignedDecimal :: "string \<Rightarrow> (jsnum \<times> string) option" where
  "scanUnsignedDecimal cs =
     (if take 8 cs = ''Infinity'' then Some (PosInfinity, drop 8 cs)
      else
        (let ip = takeWhile isDigit cs;
             r1 = dropWhile isDigit cs;
             dot = (case r1 of [] \<Rightarrow> False | c # _ \<Rightarrow> c = CHR ''.'');
             fp = (if dot then takeWhile isDigit (tl r1) else []);
             r2 = (if dot then dropWhile isDigit (tl r1) else r1)
         in if ip = [] \<and> fp = [] then None
            else
              (case scanExponent r2 of (e, r3) \<Rightarrow>
                 Some (Val (of_nat (digitsVal (ip @ fp)) / 10 ^ length fp * pow10 e), r3))))"

definition scanDecimal :: "string \<Rightarrow> (jsnum \<times> string) option" where
  "scanDecimal cs =
     (case scanSign cs of (sg, r) \<Rightarrow>
        (case scanUnsignedDecimal r of
           None \<Rightarrow> None
         | Some (v, r') \<Rightarrow> Some (if sg < 0 then negate v else v, r')))"

text \<open>
  \<open>parseFloat\<close> skips leading white space and reads the longest decimal prefix. Of a
  number it is the number itself (the string of a double reads back as that double);
  the strings of the other primitives have no decimal prefix.
\<close>

definition parseFloatStr :: "env \<Rightarrow> string \<Rightarrow> jsnum" where
  "parseFloatStr E s =
     (case scanDecimal (dropWhile isWhiteSpace s) of
        None \<Rightarrow> NaN
      | Some (v, _) \<Rightarrow> roundNum E v)"

fun parseFloat :: "env \<Rightarrow> jsval \<Rightarrow> jsnum" where
  "parseFloat E (Str s) = parseFloatStr E s"
| "parseFloat E (Number n) = n"
| "parseFloat E _ = NaN"

definition radixPrefix :: "string \<Rightarrow> (nat \<times> string) option" where
  "radixPrefix t =
     (case t of
        c0 # c1 # ds \<Rightarrow>
          if c0 \<noteq> CHR ''0'' then None
          else if c1 = CHR ''x'' \<or> c1 = CHR ''X'' then Some (16, ds)
          else if c1 = CHR ''o'' \<or> c1 = CHR ''O'' then Some (8, ds)
          else if c1 = CHR ''b'' \<or> c1 = CHR ''B'' then Some (2, ds)
          else None
      | _ \<Rightarrow> None)"

text \<open>
  The conversion of a string to a number, as the comparison operators apply it: the
  trimmed string is empty (zero), a hexadecimal, octal or binary integer literal, or
  wholly a decimal literal; anything else is \<open>NaN\<close>.
\<close>

definition StringToNumber :: "env \<Rightarrow> string \<Rightarrow> jsnum" where
  "StringToNumber E s =
     (let t = trim s in
      if t = [] then Val 0
      else
        (case radixPrefix t of
           Some (radix, ds) \<Rightarrow>
             if ds \<noteq> [] \<and> list_all (isRadixDigit radix) ds
             then Val (rnd E (of_nat (radixVal radix ds))) else NaN
         | None \<Rightarrow>
             (case scanDecimal t of
                Some (v, []) \<Rightarrow> roundNum E v
              | _ \<Rightarrow> NaN)))"

fun ToNumber :: "env \<Rightarrow> jsval \<Rightarrow> jsnum" where
  "ToNumber E Undefined = NaN"
| "ToNumber E Null = Val 0"
| "ToNumber E (Boolean b) = Val (if b then 1 else 0)"
| "ToNumber E (Number n) = n"
| "ToNumber E (Str s) = StringToNumber E s"

subsection \<open>Dates\<close>

text \<open>
  A date is its time value in milliseconds, or \<open>None\<close> for an invalid date.
  \<open>TimeClip\<close> rejects what is not finite or beyond 8.64e15 and drops the fraction.
\<close>

definition TimeClip :: "jsnum \<Rightarrow> int option" where
  "TimeClip n =
     (case n of
        Val q \<Rightarrow>
          if \<bar>q\<bar> \<le> 8640000000000000 then Some (if 0 \<le> q then \<lfloor>q\<rfloor> else \<lceil>q\<rceil>) else None
      | _ \<Rightarrow> None)"

text \<open>\<open>new Date(v)\<close>: a string is parsed, any other primitive is converted to a number.\<close>

definition newDate :: "env \<Rightarrow> jsval \<Rightarrow> int option" where
  "newDate E v = (case v of Str s \<Rightarrow> Date_parse E s | _ \<Rightarrow> TimeClip (ToNumber E v))"

text \<open>\<open>a > b\<close> on two dates compares the time values; an invalid date compares false.\<close>

definition dateGreater :: "int option \<Rightarrow> int option \<Rightarrow> bool" where
  "dateGreater a b = (case (a, b) of (Some x, Some y) \<Rightarrow> y < x | _ \<Rightarrow> False)"

subsection \<open>The schema and the collection\<close>

text \<open>
  The model \<open>Entry\<close> belongs to the Mongoose library. Its operations are embedded as
  the library documents them for the options that \<open>entrySchema\<close> (lines 20 to 54) and
  the calls of the handlers set: casts, setters and validators of the four paths, the
  timestamps, and validators that also run on an update.

  A stored document of the model \<open>Entry\<close>. The field \<open>oid\<close> is the document's
  \<open>_id\<close>, an ObjectId, written as its 24 lower-case hexadecimal digits; \<open>hours\<close> is a
  finite number, since the schema's cast refuses \<open>NaN\<close> and its bounds refuse the
  infinities.

  A query by identifier first casts the string of the request to an ObjectId
  (\<open>castObjectId\<close>, which fails on a string that is no ObjectId and reads hexadecimal
  digits in either case) and then compares ObjectIds.
\<close>

record entry =
  oid :: string
  name :: string
  date :: int
  hours :: rat
  "notes" :: string
  createdAt :: int
  updatedAt :: int

type_synonym db = "entry list"

text \<open>
  The schema's cast of a value to a date: nothing for \<open>null\<close>, \<open>undefined\<close> and the
  empty string, a cast error for a boolean, the date of a number, the date of the number
  a string denotes when that number is at least 275761 or below -271820, the parsed
  string otherwise, and a cast error for an invalid date.
\<close>

definition castDate :: "env \<Rightarrow> jsval \<Rightarrow> exn + int option" where
  "castDate E v =
     (case v of
        Undefined \<Rightarrow> Inr None
      | Null \<Rightarrow> Inr None
      | Boolean b \<Rightarrow> Inl CastError
      | Number n \<Rightarrow> (case TimeClip n of None \<Rightarrow> Inl CastError | Some t \<Rightarrow> Inr (Some t))
      | Str s \<Rightarrow>
          if s = [] then Inr None
          else
            (case (if StringToNumber E s \<noteq> NaN \<and>
                      (numLessEq (Val 275761) (StringToNumber E s) \<or>
                       numLess (StringToNumber E s) (Val (- 271820)))
                   then TimeClip (StringToNumber E s) else Date_parse E s) of
               None \<Rightarrow> Inl CastError
             | Some t \<Rightarrow> Inr (Some t)))"

text \<open>\<open>name\<close>: a string, trimmed, required, of length at least 2.\<close>

definition validateName :: "string \<Rightarrow> exn + string" where
  "validateName s =
     (if trim s = [] then Inl ValidationError
      else if length (trim s) < 2 then Inl ValidationError
      else Inr (trim s))"

text \<open>\<open>date\<close>: a date, required, not after the clock when the validator runs.\<close>

definition validateDate :: "env \<Rightarrow> jsval \<Rightarrow> exn + int" where
  "validateDate E v =
     (case castDate E v of
        Inl e \<Rightarrow> Inl e
      | Inr None \<Rightarrow> Inl ValidationError
      | Inr (Some t) \<Rightarrow> if t \<le> nowValidate E then Inr t else Inl ValidationError)"

text \<open>
  \<open>hours\<close>: a number, required, at least 0.1 and at most 24. The literal \<open>0.1\<close> of
  the schema is the double nearest to one tenth. \<open>NaN\<close> fails the cast to a number; an
  update throws that cast error as it is, \<open>save\<close> reports it in its validation error.
\<close>

definition validateHours :: "env \<Rightarrow> jsnum \<Rightarrow> exn + rat" where
  "validateHours E n =
     (case n of
        NaN \<Rightarrow> Inl CastError
      | PosInfinity \<Rightarrow> Inl ValidationError
      | NegInfinity \<Rightarrow> Inl ValidationError
      | Val h \<Rightarrow>
          if h < rnd E (1 / 10) then Inl ValidationError
          else if 24 < h then Inl ValidationError
          else Inr h)"


text \<open>
  \<open>new Entry({name, date, hours, notes}).save()\<close>: the document is validated against the
  schema and, when valid, inserted with its identifier and its two timestamps, which are
  equal on insertion. Whatever path fails, \<open>save\<close> rejects with a validation error.
\<close>

definition Entry_save :: "env \<Rightarrow> db \<Rightarrow> string \<Rightarrow> jsval \<Rightarrow> jsnum \<Rightarrow> string \<Rightarrow> exn + entry \<times> db" where
  "Entry_save E d nm dt hrs nts =
     (case validateName nm of
        Inl e \<Rightarrow> Inl ValidationError
      | Inr n \<Rightarrow>
          (case validateDate E dt of
             Inl e \<Rightarrow> Inl ValidationError
           | Inr t \<Rightarrow>
               (case validateHours E hrs of
                  Inl e \<Rightarrow> Inl ValidationError
                | Inr h \<Rightarrow>
                    (let doc = \<lparr>oid = newObjectId E, name = n, date = t, hours = h,
                                notes = trim nts, createdAt = nowDefault E,
                                updatedAt = nowDefault E\<rparr>
                     in Inr (doc, d @ [doc])))))"

text \<open>The object \<open>updateData\<close>: a property is \<open>None\<close> when the handler did not set it.\<close>

record updateData =
  upd_name :: "string option"
  upd_date :: "jsval option"
  upd_hours :: "jsnum option"
  upd_notes :: "string option"

fun validateOpt :: "('a \<Rightarrow> exn + 'b) \<Rightarrow> 'a option \<Rightarrow> exn + 'b option" where
  "validateOpt f None = Inr None"
| "validateOpt f (Some x) = (case f x of Inl e \<Rightarrow> Inl e | Inr y \<Rightarrow> Inr (Some y))"

fun orElse :: "'a option \<Rightarrow> 'a \<Rightarrow> 'a" where
  "orElse None x = x"
| "orElse (Some y) x = y"

definition applyUpdate ::
  "env \<Rightarrow> string option \<Rightarrow> int option \<Rightarrow> rat option \<Rightarrow> string option \<Rightarrow> entry \<Rightarrow> entry" where
  "applyUpdate E n t h nt e =
     e\<lparr>name := orElse n (name e), date := orElse t (date e), hours := orElse h (hours e),
       notes := orElse nt (notes e), updatedAt := nowStamp E\<rparr>"

fun updateFirst :: "string \<Rightarrow> entry \<Rightarrow> db \<Rightarrow> db" where
  "updateFirst i e' [] = []"
| "updateFirst i e' (e # d) = (if oid e = i then e' # d else e # updateFirst i e' d)"

text \<open>
  \<open>Entry.findByIdAndUpdate(id, updateData, {new: true, runValidators: true})\<close>: the
  identifier and the properties set in \<open>updateData\<close> are cast and validated, then the
  first document with that identifier takes the new values and a new \<open>updatedAt\<close>; the
  result is the document after the update, or nothing when no document has the identifier.
\<close>

definition findByIdAndUpdate ::
  "env \<Rightarrow> db \<Rightarrow> string \<Rightarrow> updateData \<Rightarrow> exn + entry option \<times> db" where
  "findByIdAndUpdate E d i u =
     (case castObjectId E i of
        None \<Rightarrow> Inl CastError
      | Some c \<Rightarrow>
        (case validateOpt validateName (upd_name u) of
           Inl e \<Rightarrow> Inl e
         | Inr n \<Rightarrow>
             (case validateOpt (validateDate E) (upd_date u) of
                Inl e \<Rightarrow> Inl e
              | Inr t \<Rightarrow>
                  (case validateOpt (validateHours E) (upd_hours u) of
                     Inl e \<Rightarrow> Inl e
                   | Inr h \<Rightarrow>
                       (case find (\<lambda>e. oid e = c) d of
                          None \<Rightarrow> Inr (None, d)
                        | Some e \<Rightarrow>
                            (let e' = applyUpdate E n t h (map_option trim (upd_notes u)) e
                             in Inr (Some e', updateFirst c e' d)))))))"

subsection \<open>Requests and responses\<close>

text \<open>
  \<open>req.body\<close> is an object: a property that is absent reads as \<open>undefined\<close>.
\<close>

type_synonym body = "string \<Rightarrow> jsval"

record learner =
  l_name :: string
  l_hours :: rat
  l_entries :: nat

record stats =
  totalEntries :: nat
  totalHours :: rat
  uniqueLearners :: nat
  avgHours :: rat
  topLearners :: "learner list"

datatype payload = Message string | Failure string exn | Doc entry | Stats stats

datatype response = Response (status: nat) (json: payload)

subsection \<open>\<open>GET /api/entries/:id\<close>\<close>


subsection \<open>\<open>POST /api/entries\<close>\<close>

definition post_entries_try :: "env \<Rightarrow> db \<Rightarrow> body \<Rightarrow> exn + response \<times> db" where
  "post_entries_try E d b =
     (if \<not> truthy (b ''name'') \<or> \<not> truthy (b ''date'') \<or> \<not> truthy (b ''hours'')
      then Inr (Response 400 (Message ''Name, date, and hours are required''), d)
      else
        (case callTrim (b ''name'') of
           Inl e \<Rightarrow> Inl e
         | Inr nm \<Rightarrow>
             if length nm < 2
             then Inr (Response 400 (Message ''Name must be at least 2 characters''), d)
             else if dateGreater (newDate E (b ''date'')) (Some (nowCheck E))
             then Inr (Response 400 (Message ''Date cannot be in the future''), d)
             else if numLessEq (ToNumber E (b ''hours'')) (Val 0) \<or>
                     numLess (Val 24) (ToNumber E (b ''hours''))
             then Inr (Response 400 (Message ''Hours must be between 0 and 24''), d)
             else
               (case (if truthy (b ''notes'') then callTrim (b ''notes'') else Inr []) of
                  Inl e \<Rightarrow> Inl e
                | Inr nts \<Rightarrow>
                    (case Entry_save E d nm (b ''date'') (parseFloat E (b ''hours'')) nts of
                       Inl e \<Rightarrow> Inl e
                     | Inr (savedEntry, d') \<Rightarrow> Inr (Response 201 (Doc savedEntry), d')))))"

definition post_entries :: "env \<Rightarrow> db \<Rightarrow> body \<Rightarrow> response \<times> db" where
  "post_entries E d b =
     (case post_entries_try E d b of
        Inl e \<Rightarrow> (Response 500 (Failure ''Error creating entry'' e), d)
      | Inr r \<Rightarrow> r)"

subsection \<open>\<open>PUT /api/entries/:id\<close>\<close>

text \<open>The three guards of the handler, in the order of the source.\<close>

definition nameTooShort :: "body \<Rightarrow> exn + bool" where
  "nameTooShort b =
     (if truthy (b ''name'')
      then (case callTrim (b ''name'') of Inl e \<Rightarrow> Inl e | Inr nm \<Rightarrow> Inr (length nm < 2))
      else Inr False)"

definition dateInFuture :: "env \<Rightarrow> body \<Rightarrow> bool" where
  "dateInFuture E b =
     (truthy (b ''date'') \<and> dateGreater (newDate E (b ''date'')) (Some (nowCheck E)))"

definition hoursOutOfRange :: "env \<Rightarrow> body \<Rightarrow> bool" where
  "hoursOutOfRange E b =
     (truthy (b ''hours'') \<and>
      (numLessEq (ToNumber E (b ''hours'')) (Val 0) \<or> numLess (Val 24) (ToNumber E (b ''hours''))))"

definition buildUpdateData :: "env \<Rightarrow> body \<Rightarrow> exn + updateData" where
  "buildUpdateData E b =
     (case (if truthy (b ''name'') then map_sum id Some (callTrim (b ''name'')) else Inr None) of
        Inl e \<Rightarrow> Inl e
      | Inr n \<Rightarrow>
          (case (if b ''notes'' \<noteq> Undefined then map_sum id Some (callTrim (b ''notes''))
                 else Inr None) of
             Inl e \<Rightarrow> Inl e
           | Inr nt \<Rightarrow>
               Inr \<lparr>upd_name = n,
                    upd_date = (if truthy (b ''date'') then Some (b ''date'') else None),
                    upd_hours = (if truthy (b ''hours'') then Some (parseFloat E (b ''hours''))
                                 else None),
                    upd_notes = nt\<rparr>))"

definition put_entry_try :: "env \<Rightarrow> db \<Rightarrow> string \<Rightarrow> body \<Rightarrow> exn + response \<times> db" where
  "put_entry_try E d i b =
     (case nameTooShort b of
        Inl e \<Rightarrow> Inl e
      | Inr short \<Rightarrow>
          if short then Inr (Response 400 (Message ''Name must be at least 2 characters''), d)
          else if dateInFuture E b
          then Inr (Response 400 (Message ''Date cannot be in the future''), d)
          else if hoursOutOfRange E b
          then Inr (Response 400 (Message ''Hours must be between 0 and 24''), d)
          else
            (case buildUpdateData E b of
               Inl e \<Rightarrow> Inl e
             | Inr u \<Rightarrow>
                 (case findByIdAndUpdate E d i u of
                    Inl e \<Rightarrow> Inl e
                  | Inr (None, d') \<Rightarrow> Inr (Response 404 (Message ''Entry not found''), d')
                  | Inr (Some entry, d') \<Rightarrow> Inr (Response 200 (Doc entry), d'))))"

definition put_entry :: "env \<Rightarrow> db \<Rightarrow> string \<Rightarrow> body \<Rightarrow> response \<times> db" where
  "put_entry E d i b =
     (case put_entry_try E d i b of
        Inl e \<Rightarrow> (Response 500 (Failure ''Error updating entry'' e), d)
      | Inr r \<Rightarrow> r)"

subsection \<open>\<open>GET /api/stats\<close>\<close>

text \<open>The sum and the quotient of two doubles are the exact results, rounded.\<close>

definition jsAdd :: "env \<Rightarrow> rat \<Rightarrow> rat \<Rightarrow> rat" where
  "jsAdd E a b = rnd E (a + b)"

definition jsDiv :: "env \<Rightarrow> rat \<Rightarrow> rat \<Rightarrow> rat" where
  "jsDiv E a b = rnd E (a / b)"

definition sumHours :: "env \<Rightarrow> db \<Rightarrow> rat" where
  "sumHours E entries = foldl (\<lambda>sum entry. jsAdd E sum (hours entry)) 0 entries"

definition countLearners :: "db \<Rightarrow> nat" where
  "countLearners entries = length (remdups (map name entries))"

definition average :: "env \<Rightarrow> db \<Rightarrow> rat" where
  "average E entries =
     (if 0 < length entries then jsDiv E (sumHours E entries) (of_nat (length entries)) else 0)"

text \<open>
  \<open>parseFloat(x.toFixed(1))\<close>: \<open>toFixed\<close> works on the exact value of the double. Below
  1e21 it takes the integer \<open>n\<close> nearest to ten times the magnitude, the larger of two
  equally near, and writes \<open>n / 10\<close> with the sign; from 1e21 on it writes the number
  itself. The value is the decimal that is written: the response carries the double
  nearest to it, which prints as that decimal.
\<close>

definition toFixed1 :: "rat \<Rightarrow> rat" where
  "toFixed1 x =
     (if 10 ^ 21 \<le> \<bar>x\<bar> then x
      else (if x < 0 then - 1 else 1) * of_int \<lfloor>\<bar>x\<bar> * 10 + 1 / 2\<rfloor> / 10)"

text \<open>
  The accumulator of the leaderboard is a plain object: its own properties, in the order
  of their creation. \<open>acc[key]\<close> is truthy when \<open>key\<close> is an own property (the value is
  an object) and also when \<open>key\<close> names a member that every object inherits; in the
  second case no own property is created and the two updates land on the inherited member.
\<close>

definition objectPrototypeKeys :: "string list" where
  "objectPrototypeKeys =
     [''constructor'', ''__proto__'', ''hasOwnProperty'', ''isPrototypeOf'',
      ''propertyIsEnumerable'', ''toLocaleString'', ''toString'', ''valueOf'',
      ''__defineGetter__'', ''__defineSetter__'', ''__lookupGetter__'', ''__lookupSetter__'']"

definition lookupTruthy :: "(string \<times> learner) list \<Rightarrow> string \<Rightarrow> bool" where
  "lookupTruthy acc k = (k \<in> set (map fst acc) \<or> k \<in> set objectPrototypeKeys)"

definition addEntry :: "env \<Rightarrow> (string \<times> learner) list \<Rightarrow> entry \<Rightarrow> (string \<times> learner) list" where
  "addEntry E acc entry =
     map (\<lambda>(k, g). if k = name entry
                    then (k, g\<lparr>l_hours := jsAdd E (l_hours g) (hours entry),
                               l_entries := l_entries g + 1\<rparr>)
                    else (k, g))
       (if \<not> lookupTruthy acc (name entry)
        then acc @ [(name entry, \<lparr>l_name = name entry, l_hours = 0, l_entries = 0\<rparr>)]
        else acc)"

definition leaderboard :: "env \<Rightarrow> db \<Rightarrow> (string \<times> learner) list" where
  "leaderboard E entries = foldl (addEntry E) [] entries"

text \<open>
  \<open>Object.values\<close> lists the own properties whose keys are array indices (canonical
  decimal strings below \<open>2^32 - 1\<close>) first, in ascending numeric order, and then the
  other properties in the order of their creation.
\<close>

definition isArrayIndex :: "string \<Rightarrow> bool" where
  "isArrayIndex k =
     (k \<noteq> [] \<and> list_all isDigit k \<and> (k = ''0'' \<or> take 1 k \<noteq> ''0'') \<and>
      digitsVal k < 4294967295)"

definition Object_values :: "(string \<times> learner) list \<Rightarrow> learner list" where
  "Object_values acc =
     map snd (sort_key (\<lambda>p. digitsVal (fst p)) (filter (\<lambda>p. isArrayIndex (fst p)) acc) @
              filter (\<lambda>p. \<not> isArrayIndex (fst p)) acc)"

text \<open>
  \<open>.sort((a, b) => b.hours - a.hours).slice(0, 5)\<close>: the sort is stable, and the sign of
  the rounded difference of two doubles is the sign of the exact difference.
\<close>

definition calcTopLearners :: "env \<Rightarrow> db \<Rightarrow> learner list" where
  "calcTopLearners E entries =
     take 5 (sort_key (\<lambda>g. - l_hours g) (Object_values (leaderboard E entries)))"

definition get_stats :: "env \<Rightarrow> db \<Rightarrow> response" where
  "get_stats E entries =
     Response 200 (Stats
       \<lparr>totalEntries = length entries,
        totalHours = toFixed1 (sumHours E entries),
        uniqueLearners = countLearners entries,
        avgHours = toFixed1 (average E entries),
        topLearners = calcTopLearners E entries\<rparr>)"

subsection \<open>The leaderboard as the specification words it\<close>

text \<open>
  Defined from the words of the specification, for comparison with \<open>calcTopLearners\<close>:
  the names in the order of their first appearance; for each name the group of its
  entries, with the total of their hours, accumulated in the order of the list, and their
  count; the groups sorted by total hours, descending, by a stable sort; the first five.
\<close>

fun firstSeen :: "string list \<Rightarrow> string list" where
  "firstSeen [] = []"
| "firstSeen (n # ns) = n # filter (\<lambda>m. m \<noteq> n) (firstSeen ns)"

definition groupOf :: "env \<Rightarrow> db \<Rightarrow> string \<Rightarrow> learner" where
  "groupOf E entries n =
     \<lparr>l_name = n,
      l_hours = foldl (jsAdd E) 0 (map hours (filter (\<lambda>e. name e = n) entries)),
      l_entries = length (filter (\<lambda>e. name e = n) entries)\<rparr>"

definition spec_groups :: "env \<Rightarrow> db \<Rightarrow> learner list" where
  "spec_groups E entries = map (groupOf E entries) (firstSeen (map name entries))"

definition spec_ranking :: "env \<Rightarrow> db \<Rightarrow> learner list" where
  "spec_ranking E entries = sort_key (\<lambda>g. - l_hours g) (spec_groups E entries)"

definition spec_topLearners :: "env \<Rightarrow> db \<Rightarrow> learner list" where
  "spec_topLearners E entries = take 5 (spec_ranking E entries)"

text \<open>A name that the accumulator object treats as any other key.\<close>

definition plainKey :: "string \<Rightarrow> bool" where
  "plainKey k = (\<not> isArrayIndex k \<and> k \<notin> set objectPrototypeKeys)"

definition plainNames :: "db \<Rightarrow> bool" where
  "plainNames entries = list_all (\<lambda>e. plainKey (name e)) entries"

subsection \<open>Payloads read field by field\<close>

text \<open>
  For statements that are explicit in the values a client sends: a field that is absent
  or holds a string, a field that is absent or holds a number, and a date that denotes
  the instant \<open>t\<close> both for \<open>new Date\<close> and for the schema's cast, being either a
  non-zero number of milliseconds within the range of dates or a non-empty string that is
  no number and that \<open>Date.parse\<close> reads as \<open>t\<close>.
\<close>

fun optStr :: "string option \<Rightarrow> jsval" where
  "optStr None = Undefined"
| "optStr (Some s) = Str s"

fun optNum :: "rat option \<Rightarrow> jsval" where
  "optNum None = Undefined"
| "optNum (Some h) = Number (Val h)"

definition dateDenotes :: "env \<Rightarrow> jsval \<Rightarrow> int \<Rightarrow> bool" where
  "dateDenotes E v t =
     (case v of
        Number (Val q) \<Rightarrow> q = of_int t \<and> t \<noteq> 0 \<and> \<bar>t\<bar> \<le> 8640000000000000
      | Str s \<Rightarrow> s \<noteq> [] \<and> StringToNumber E s = NaN \<and> Date_parse E s = Some t
      | _ \<Rightarrow> False)"

definition payloadOf ::
  "env \<Rightarrow> body \<Rightarrow> string option \<Rightarrow> int option \<Rightarrow> rat option \<Rightarrow> string option \<Rightarrow> bool" where
  "payloadOf E b sn st sh snt =
     (b ''name'' = optStr sn \<and>
      (case st of None \<Rightarrow> b ''date'' = Undefined | Some t \<Rightarrow> dateDenotes E (b ''date'') t) \<and>
      b ''hours'' = optNum sh \<and> b ''notes'' = optStr snt)"

text \<open>
  The entry that an update leaves, field by field from the values of the payload: a name
  and hours that are supplied and not falsy, a date and notes that are supplied, and the
  clock for \<open>updatedAt\<close>; every other field as it was.
\<close>

definition patchEntry ::
  "env \<Rightarrow> string option \<Rightarrow> int option \<Rightarrow> rat option \<Rightarrow> string option \<Rightarrow> entry \<Rightarrow> entry" where
  "patchEntry E sn st sh snt e =
     e\<lparr>name := (case sn of None \<Rightarrow> name e | Some s \<Rightarrow> if s = [] then name e else trim s),
       date := (case st of None \<Rightarrow> date e | Some t \<Rightarrow> t),
       hours := (case sh of None \<Rightarrow> hours e | Some h \<Rightarrow> if h = 0 then hours e else h),
       notes := (case snt of None \<Rightarrow> notes e | Some n \<Rightarrow> trim n),
       updatedAt := nowStamp E\<rparr>"

subsection \<open>A concrete environment and concrete data\<close>

text \<open>
  An environment for evaluating the handlers: exact arithmetic, a host that parses no
  date string, identifiers of 24 hexadecimal digits in either case, and a clock that
  advances by one millisecond between readings.
\<close>

definition isHex24 :: "string \<Rightarrow> bool" where
  "isHex24 s = (length s = 24 \<and> list_all (\<lambda>c. hexVal c \<noteq> None) s)"

definition lowerHex :: "char \<Rightarrow> char" where
  "lowerHex c =
     (if c = CHR ''A'' then CHR ''a'' else if c = CHR ''B'' then CHR ''b''
      else if c = CHR ''C'' then CHR ''c'' else if c = CHR ''D'' then CHR ''d''
      else if c = CHR ''E'' then CHR ''e'' else if c = CHR ''F'' then CHR ''f'' else c)"

definition castHex24 :: "string \<Rightarrow> string option" where
  "castHex24 s = (if isHex24 s then Some (map lowerHex s) else None)"

definition env0 :: env where
  "env0 =
     \<lparr>rnd = (\<lambda>q. q), Date_parse = (\<lambda>s. None), castObjectId = castHex24,
      newObjectId = ''65a1b2c3d4e5f60718293a4b'',
      nowCheck = 1700000000000, nowDefault = 1700000000001,
      nowValidate = 1700000000002, nowStamp = 1700000000003\<rparr>"

definition emptyBody :: body where
  "emptyBody = (\<lambda>k. Undefined)"

definition validBody :: body where
  "validBody =
     emptyBody(''name'' := Str ''Alice'', ''date'' := Number (Val 1690000000000),
               ''hours'' := Number (Val 5))"

definition alice :: entry where
  "alice =
     \<lparr>oid = ''65a1b2c3d4e5f60718293a4c'', name = ''Alice'', date = 1690000000000, hours = 3,
      notes = ''reading'', createdAt = 1690000000500, updatedAt = 1690000000500\<rparr>"

subsection \<open>Requests whose other fields are accepted\<close>

text \<open>
  A claim about one field of a create request is about requests whose other fields pass:
  the name is a string of at least two characters once trimmed; the date is truthy, not
  after the clock of the handler and valid for the schema; the notes are a string or falsy.
\<close>

definition nameAccepted :: "body \<Rightarrow> bool" where
  "nameAccepted b = (case b ''name'' of Str s \<Rightarrow> 2 \<le> length (trim s) | _ \<Rightarrow> False)"

definition notesAccepted :: "body \<Rightarrow> bool" where
  "notesAccepted b = (case b ''notes'' of Str s \<Rightarrow> True | v \<Rightarrow> \<not> truthy v)"

definition dateAccepted :: "env \<Rightarrow> body \<Rightarrow> bool" where
  "dateAccepted E b =
     (truthy (b ''date'') \<and> \<not> dateGreater (newDate E (b ''date'')) (Some (nowCheck E)) \<and>
      (case validateDate E (b ''date'') of Inl e \<Rightarrow> False | Inr t \<Rightarrow> True))"

text \<open>The document that an accepted create request stores, given its hours.\<close>

definition newEntry :: "env \<Rightarrow> body \<Rightarrow> rat \<Rightarrow> entry" where
  "newEntry E b h =
     \<lparr>oid = newObjectId E,
      name = (case b ''name'' of Str s \<Rightarrow> trim s | _ \<Rightarrow> []),
      date = (case validateDate E (b ''date'') of Inr t \<Rightarrow> t | Inl e \<Rightarrow> 0),
      hours = h,
      notes = (case b ''notes'' of Str s \<Rightarrow> trim s | _ \<Rightarrow> []),
      createdAt = nowDefault E, updatedAt = nowDefault E\<rparr>"

definition session :: "string \<Rightarrow> string \<Rightarrow> rat \<Rightarrow> entry" where
  "session i n h =
     \<lparr>oid = i, name = n, date = 1690000000000, hours = h,
      notes = [], createdAt = 1690000000500, updatedAt = 1690000000500\<rparr>"

definition threeSessions :: db where
  "threeSessions =
     [session ''65a1b2c3d4e5f60718293a51'' ''A'' 3, session ''65a1b2c3d4e5f60718293a52'' ''B'' 5,
      session ''65a1b2c3d4e5f60718293a53'' ''A'' 2]"

definition tiedSessions :: db where
  "tiedSessions =
     [session ''65a1b2c3d4e5f60718293a61'' ''Bob'' 5, session ''65a1b2c3d4e5f60718293a62'' ''10'' 5]"

definition inheritedSessions :: db where
  "inheritedSessions =
     [session ''65a1b2c3d4e5f60718293a71'' ''constructor'' 5,
      session ''65a1b2c3d4e5f60718293a72'' ''Bob'' 3]"

section \<open>Properties\<close>

subsection \<open>Trimming\<close>

lemma trim_Nil: "trim [] = []"
  by (simp add: trim_def)

lemma dropWhile_id_hd: "xs = [] \<or> \<not> P (hd xs) \<Longrightarrow> dropWhile P xs = xs"
  by (cases xs) auto

lemma last_dropWhile_nonempty: "dropWhile P xs \<noteq> [] \<Longrightarrow> last (dropWhile P xs) = last xs"
  by (induction xs) (auto split: if_splits)

lemma trim_hd: "trim s = [] \<or> \<not> isWhiteSpace (hd (trim s))"
proof (cases "trim s = []")
  case True
  then show ?thesis by simp
next
  case False
  let ?u = "dropWhile isWhiteSpace s"
  from False have ne: "dropWhile isWhiteSpace (rev ?u) \<noteq> []"
    by (simp add: trim_def)
  have une: "?u \<noteq> []"
  proof
    assume e: "?u = []"
    from ne show False unfolding e by simp
  qed
  have "hd (trim s) = last (dropWhile isWhiteSpace (rev ?u))"
    using ne by (simp add: trim_def hd_rev)
  also have "\<dots> = last (rev ?u)"
    using ne by (rule last_dropWhile_nonempty)
  also have "\<dots> = hd ?u"
    using une by (simp add: last_rev)
  finally have "hd (trim s) = hd ?u" .
  moreover have "\<not> isWhiteSpace (hd ?u)"
    using une by (rule hd_dropWhile)
  ultimately show ?thesis by simp
qed

lemma trim_last: "trim s = [] \<or> \<not> isWhiteSpace (last (trim s))"
proof (cases "trim s = []")
  case True
  then show ?thesis by simp
next
  case False
  let ?u = "dropWhile isWhiteSpace s"
  from False have ne: "dropWhile isWhiteSpace (rev ?u) \<noteq> []"
    by (simp add: trim_def)
  have "last (trim s) = hd (dropWhile isWhiteSpace (rev ?u))"
    using ne by (simp add: trim_def last_rev)
  moreover have "\<not> isWhiteSpace (hd (dropWhile isWhiteSpace (rev ?u)))"
    using ne by (rule hd_dropWhile)
  ultimately show ?thesis by simp
qed

lemma trim_trim: "trim (trim s) = trim s"
proof (cases "trim s = []")
  case True
  then show ?thesis by (simp add: trim_Nil)
next
  case False
  have a: "dropWhile isWhiteSpace (trim s) = trim s"
    using trim_hd [of s] by (rule dropWhile_id_hd)
  have "rev (trim s) = [] \<or> \<not> isWhiteSpace (hd (rev (trim s)))"
    using trim_last [of s] False by (simp add: hd_rev)
  then have b: "dropWhile isWhiteSpace (rev (trim s)) = rev (trim s)"
    by (rule dropWhile_id_hd)
  show ?thesis
    unfolding trim_def [of "trim s"] a b by simp
qed

subsection \<open>Looking an entry up\<close>




lemma find_oid_distinct:
  "distinct (map oid d) \<Longrightarrow> e \<in> set d \<Longrightarrow> oid e = c \<Longrightarrow> find (\<lambda>e. oid e = c) d = Some e"
  by (induction d) (auto simp: image_iff)


lemma castObjectId_env0_alice:
  "castObjectId env0 ''65a1b2c3d4e5f60718293a4c'' = Some ''65a1b2c3d4e5f60718293a4c''"
  "castObjectId env0 ''65A1B2C3D4E5F60718293A4C'' = Some ''65a1b2c3d4e5f60718293a4c''"
  "castObjectId env0 ''65a1b2c3d4e5f60718293a4b'' = Some ''65a1b2c3d4e5f60718293a4b''"
  by (simp_all add: env0_def castHex24_def isHex24_def hexVal_def lowerHex_def)




subsection \<open>Creating an entry\<close>

lemma post_entries_fields:
  assumes n: "nameAccepted b" and nt: "notesAccepted b"
    and dt: "truthy (b ''date'')" and h: "truthy (b ''hours'')"
  shows "post_entries E d b =
     (if dateGreater (newDate E (b ''date'')) (Some (nowCheck E))
      then (Response 400 (Message ''Date cannot be in the future''), d)
      else if numLessEq (ToNumber E (b ''hours'')) (Val 0) \<or>
              numLess (Val 24) (ToNumber E (b ''hours''))
      then (Response 400 (Message ''Hours must be between 0 and 24''), d)
      else case validateDate E (b ''date'') of
             Inl e \<Rightarrow> (Response 500 (Failure ''Error creating entry'' ValidationError), d)
           | Inr t \<Rightarrow>
               (case validateHours E (parseFloat E (b ''hours'')) of
                  Inl e \<Rightarrow> (Response 500 (Failure ''Error creating entry'' ValidationError), d)
                | Inr x \<Rightarrow> (Response 201 (Doc (newEntry E b x)), d @ [newEntry E b x])))"
proof -
  from n obtain s where s: "b ''name'' = Str s" "2 \<le> length (trim s)"
    by (auto simp: nameAccepted_def split: jsval.splits)
  from s have sne: "s \<noteq> []" "trim s \<noteq> []"
    by (auto simp: trim_Nil)
  have nts: "(if truthy (b ''notes'') then callTrim (b ''notes'') else Inr []) =
      Inr (case b ''notes'' of Str s \<Rightarrow> trim s | _ \<Rightarrow> [])"
    using nt by (auto simp: notesAccepted_def trim_Nil split: jsval.splits)
  have sv: "Entry_save E d (trim s) (b ''date'') x (case b ''notes'' of Str s \<Rightarrow> trim s | _ \<Rightarrow> []) =
      (case validateDate E (b ''date'') of
         Inl e \<Rightarrow> Inl ValidationError
       | Inr t \<Rightarrow>
           (case validateHours E x of
              Inl e \<Rightarrow> Inl ValidationError
            | Inr y \<Rightarrow> Inr (newEntry E b y, d @ [newEntry E b y])))" for x
    using s sne
    by (simp add: Entry_save_def validateName_def trim_trim newEntry_def Let_def trim_Nil
        split: sum.splits jsval.splits)
  show ?thesis
    using s sne dt h
    by (simp add: post_entries_def post_entries_try_def nts sv split: sum.splits)
qed

lemma post_entries_rest_accepted:
  assumes n: "nameAccepted b" and dt: "dateAccepted E b" and nt: "notesAccepted b"
    and h: "truthy (b ''hours'')"
  shows "post_entries E d b =
     (if numLessEq (ToNumber E (b ''hours'')) (Val 0) \<or> numLess (Val 24) (ToNumber E (b ''hours''))
      then (Response 400 (Message ''Hours must be between 0 and 24''), d)
      else case validateHours E (parseFloat E (b ''hours'')) of
             Inl e \<Rightarrow> (Response 500 (Failure ''Error creating entry'' ValidationError), d)
           | Inr x \<Rightarrow> (Response 201 (Doc (newEntry E b x)), d @ [newEntry E b x]))"
proof -
  from dt obtain t where t: "truthy (b ''date'')"
      "\<not> dateGreater (newDate E (b ''date'')) (Some (nowCheck E))"
      "validateDate E (b ''date'') = Inr t"
    by (auto simp: dateAccepted_def split: sum.splits)
  show ?thesis
    unfolding post_entries_fields [OF n nt t(1) h]
    using t by simp
qed

lemmas eval_defs = env0_def validBody_def emptyBody_def post_entries_def post_entries_try_def
  Entry_save_def validateName_def validateDate_def validateHours_def castDate_def TimeClip_def
  newDate_def dateGreater_def numLessEq_def trim_def isWhiteSpace_def Let_def

lemma validBody_hours_accepted:
  "nameAccepted (validBody(''hours'' := v))"
  "dateAccepted env0 (validBody(''hours'' := v))"
  "notesAccepted (validBody(''hours'' := v))"
  by (simp_all add: nameAccepted_def dateAccepted_def notesAccepted_def eval_defs)

lemma rnd_env0: "rnd env0 q = q"
  by (simp add: env0_def)

text \<open>
  C2, as the claim states it, fails: \<open>hours = 0.05\<close> lies in (0, 24], the request passes
  the check of the handler, the schema's minimum of 0.1 refuses the document, and the
  response is 500 with nothing stored.
\<close>

theorem post_entries_hours_counterexample:
  "status (fst (post_entries env0 [] (validBody(''hours'' := Number (Val (1 / 20)))))) = 500 \<and>
   snd (post_entries env0 [] (validBody(''hours'' := Number (Val (1 / 20))))) = []"
  by (simp add: eval_defs)

text \<open>
  C2, amended: for a create request whose other fields are accepted and whose hours is
  the number \<open>h\<close>, the entry is created (201) exactly when \<open>0.1 \<le> h \<le> 24\<close>; the
  request is rejected with 400 exactly when \<open>h \<le> 0\<close> or \<open>h > 24\<close>; and for
  \<open>0 < h < 0.1\<close> the schema refuses the document and the response is 500. The
  collection changes only when the entry is created.
\<close>

theorem post_entries_hours_range:
  assumes "nameAccepted b" and "dateAccepted E b" and "notesAccepted b"
    and h: "b ''hours'' = Number (Val h)"
    and r: "0 < rnd E (1 / 10)" "rnd E (1 / 10) \<le> 24"
  shows "(status (fst (post_entries E d b)) = 201 \<longleftrightarrow> rnd E (1 / 10) \<le> h \<and> h \<le> 24) \<and>
         (status (fst (post_entries E d b)) = 400 \<longleftrightarrow> h \<le> 0 \<or> 24 < h) \<and>
         (status (fst (post_entries E d b)) = 500 \<longleftrightarrow> 0 < h \<and> h < rnd E (1 / 10)) \<and>
         post_entries E d b =
           (if rnd E (1 / 10) \<le> h \<and> h \<le> 24
            then (Response 201 (Doc (newEntry E b h)), d @ [newEntry E b h])
            else (fst (post_entries E d b), d))"
proof (cases "h = 0")
  case True
  then have "post_entries E d b = (Response 400 (Message ''Name, date, and hours are required''), d)"
    using h by (simp add: post_entries_def post_entries_try_def)
  then show ?thesis
    using True r by simp
next
  case False
  then have "truthy (b ''hours'')"
    using h by simp
  from post_entries_rest_accepted [OF assms(1-3) this, of d] show ?thesis
    using h r False by (auto simp: numLessEq_def validateHours_def)
qed

theorem post_entries_hours_range_witness:
  "nameAccepted validBody \<and> dateAccepted env0 validBody \<and> notesAccepted validBody \<and>
   status (fst (post_entries env0 [] (validBody(''hours'' := Number (Val 0))))) = 400 \<and>
   status (fst (post_entries env0 [] (validBody(''hours'' := Number (Val 25))))) = 400 \<and>
   status (fst (post_entries env0 [] (validBody(''hours'' := Number (Val 24))))) = 201 \<and>
   status (fst (post_entries env0 [] (validBody(''hours'' := Number (Val (1 / 10)))))) = 201 \<and>
   status (fst (post_entries env0 [] (validBody(''hours'' := Number (Val (1 / 20)))))) = 500 \<and>
   post_entries env0 [] validBody =
     (Response 201 (Doc (newEntry env0 validBody 5)), [newEntry env0 validBody 5])"
proof -
  have v: "validBody(''hours'' := Number (Val 5)) = validBody"
    by (auto simp: validBody_def)
  have r: "0 < rnd env0 (1 / 10)" "rnd env0 (1 / 10) \<le> 24"
    by (simp_all add: rnd_env0)
  have hyps: "nameAccepted validBody" "dateAccepted env0 validBody" "notesAccepted validBody"
    using validBody_hours_accepted [of "Number (Val 5)"] by (simp_all add: v)
  have at: "(validBody(''hours'' := Number (Val h))) ''hours'' = Number (Val h)" for h
    by simp
  note T = post_entries_hours_range [of "validBody(''hours'' := Number (Val h))" env0 h "[]" for h,
      OF validBody_hours_accepted at r]
  have "status (fst (post_entries env0 [] (validBody(''hours'' := Number (Val 0))))) = 400"
    using T [of "0"] by simp
  moreover have "status (fst (post_entries env0 [] (validBody(''hours'' := Number (Val 25))))) = 400"
    using T [of "25"] by simp
  moreover have "status (fst (post_entries env0 [] (validBody(''hours'' := Number (Val 24))))) = 201"
    using T [of "24"] by (simp add: rnd_env0)
  moreover have "status (fst (post_entries env0 [] (validBody(''hours'' := Number (Val (1 / 10)))))) = 201"
    using T [of "1 / 10"] by (simp add: rnd_env0)
  moreover have "status (fst (post_entries env0 [] (validBody(''hours'' := Number (Val (1 / 20)))))) = 500"
    using T [of "1 / 20"] by (simp add: rnd_env0)
  moreover have "post_entries env0 [] validBody =
     (Response 201 (Doc (newEntry env0 validBody 5)), [newEntry env0 validBody 5])"
    using T [of "5"] by (simp add: rnd_env0 v)
  ultimately show ?thesis
    using hyps by simp
qed


lemma TimeClip_int:
  "\<bar>t\<bar> \<le> 8640000000000000 \<Longrightarrow> TimeClip (Val (of_int t)) = Some t"
proof -
  assume "\<bar>t\<bar> \<le> 8640000000000000"
  then have "\<bar>(of_int t :: rat)\<bar> \<le> of_int 8640000000000000"
    by (simp only: of_int_abs [symmetric] of_int_le_iff)
  then show ?thesis
    by (simp add: TimeClip_def)
qed

lemma dateDenotes_reads:
  assumes "dateDenotes E v t"
  shows "truthy v \<and> newDate E v = Some t \<and> castDate E v = Inr (Some t)"
proof (cases v)
  case (Number n)
  with assms obtain q where q: "n = Val q" "q = of_int t" "t \<noteq> 0" "\<bar>t\<bar> \<le> 8640000000000000"
    by (auto simp: dateDenotes_def split: jsnum.splits)
  with Number TimeClip_int [of t] show ?thesis
    by (simp add: newDate_def castDate_def)
next
  case (Str s)
  with assms show ?thesis
    by (simp add: dateDenotes_def newDate_def castDate_def)
qed (use assms in \<open>simp_all add: dateDenotes_def\<close>)

lemma validateDate_denotes:
  "dateDenotes E v t \<Longrightarrow>
   validateDate E v = (if t \<le> nowValidate E then Inr t else Inl ValidationError)"
  using dateDenotes_reads [of E v t] by (simp add: validateDate_def)









text \<open>
  C9, as the claim states it, fails: the string \<open>0x10\<close> converts to the number 16, which
  the handler compares with the bounds, but \<open>parseFloat\<close> reads it as 0, which the schema
  refuses: the response is 500 and nothing is stored.
\<close>

theorem post_entries_hours_string_counterexample:
  "StringToNumber env0 ''0x10'' = Val 16 \<and> parseFloat env0 (Str ''0x10'') = Val 0 \<and>
   status (fst (post_entries env0 [] (validBody(''hours'' := Str ''0x10'')))) = 500 \<and>
   snd (post_entries env0 [] (validBody(''hours'' := Str ''0x10''))) = []"
  by code_simp

text \<open>
  C9, amended: for a create request whose other fields are accepted and whose hours is a
  non-empty string that converts to a number in (0, 24], the entry is created exactly when
  \<open>parseFloat\<close> of the string lies between 0.1 and 24, and the stored hours is then that
  number; otherwise the response is 500 and nothing is stored. For a decimal string the
  conversion and \<open>parseFloat\<close> give the same number.
\<close>

theorem post_entries_hours_string:
  assumes "nameAccepted b" and "dateAccepted E b" and "notesAccepted b"
    and s: "b ''hours'' = Str s" "s \<noteq> []"
    and v: "StringToNumber E s = Val v" "0 < v" "v \<le> 24"
    and p: "parseFloatStr E s = Val p"
  shows "(status (fst (post_entries E d b)) = 201 \<longleftrightarrow> rnd E (1 / 10) \<le> p \<and> p \<le> 24) \<and>
         (rnd E (1 / 10) \<le> p \<and> p \<le> 24 \<longrightarrow>
            post_entries E d b = (Response 201 (Doc (newEntry E b p)), d @ [newEntry E b p]) \<and>
            hours (newEntry E b p) = p) \<and>
         (\<not> (rnd E (1 / 10) \<le> p \<and> p \<le> 24) \<longrightarrow>
            status (fst (post_entries E d b)) = 500 \<and> snd (post_entries E d b) = d)"
proof -
  have "truthy (b ''hours'')"
    using s by simp
  from post_entries_rest_accepted [OF assms(1-3) this, of d] show ?thesis
    using s v p by (auto simp: numLessEq_def validateHours_def newEntry_def)
qed

theorem post_entries_hours_string_witness:
  "StringToNumber env0 ''5'' = Val 5 \<and> parseFloatStr env0 ''5'' = Val 5 \<and>
   post_entries env0 [] (validBody(''hours'' := Str ''5'')) =
     (Response 201 (Doc (newEntry env0 (validBody(''hours'' := Str ''5'')) 5)),
      [newEntry env0 (validBody(''hours'' := Str ''5'')) 5]) \<and>
   hours (newEntry env0 (validBody(''hours'' := Str ''5'')) 5) = 5"
proof -
  let ?b = "validBody(''hours'' := Str ''5'')"
  have v: "StringToNumber env0 ''5'' = Val 5"
    by code_simp
  have p: "parseFloatStr env0 ''5'' = Val 5"
    by code_simp
  have s: "?b ''hours'' = Str ''5''" "''5'' \<noteq> []"
    by simp_all
  have r: "(0::rat) < 5" "(5::rat) \<le> 24"
    by simp_all
  have q: "rnd env0 (1 / 10) \<le> 5 \<and> (5::rat) \<le> 24"
    by (simp add: rnd_env0)
  from post_entries_hours_string [OF validBody_hours_accepted s v r p, of "[]"] q
  have "post_entries env0 [] ?b = (Response 201 (Doc (newEntry env0 ?b 5)), [newEntry env0 ?b 5]) \<and>
    hours (newEntry env0 ?b 5) = 5"
    by (simp only: append_Nil)
  then show ?thesis
    using v p by blast
qed

subsection \<open>Updating an entry\<close>

lemma map_oid_absent:
  "\<forall>x \<in> set d. oid x \<noteq> c \<Longrightarrow> map (\<lambda>x. if oid x = c then e' else x) d = d"
  by (induction d) auto

lemma updateFirst_distinct:
  "distinct (map oid d) \<Longrightarrow> e \<in> set d \<Longrightarrow> oid e = c \<Longrightarrow>
   updateFirst c e' d = map (\<lambda>x. if oid x = c then e' else x) d"
proof (induction d)
  case Nil
  then show ?case by simp
next
  case (Cons x d)
  show ?case
  proof (cases "oid x = c")
    case True
    with Cons.prems have "\<forall>y \<in> set d. oid y \<noteq> c"
      by (auto simp: image_iff)
    then have "map (\<lambda>x. if oid x = c then e' else x) d = d"
      by (rule map_oid_absent)
    with True show ?thesis by simp
  next
    case False
    with Cons show ?thesis by auto
  qed
qed

lemma put_entry_null_notes_cases:
  assumes n: "b ''notes'' = Null"
  shows "put_entry E d i b =
    (case nameTooShort b of
       Inl e \<Rightarrow> (Response 500 (Failure ''Error updating entry'' e), d)
     | Inr short \<Rightarrow>
         if short then (Response 400 (Message ''Name must be at least 2 characters''), d)
         else if dateInFuture E b then (Response 400 (Message ''Date cannot be in the future''), d)
         else if hoursOutOfRange E b then (Response 400 (Message ''Hours must be between 0 and 24''), d)
         else (Response 500 (Failure ''Error updating entry'' TypeError), d))"
  using n
  by (auto simp: put_entry_def put_entry_try_def buildUpdateData_def nameTooShort_def
      split: sum.splits jsval.splits)


lemma payload_guards:
  assumes "payloadOf E b sn st sh snt"
  shows "nameTooShort b = Inr (\<exists>s. sn = Some s \<and> s \<noteq> [] \<and> length (trim s) < 2)"
    and "dateInFuture E b = (\<exists>t. st = Some t \<and> nowCheck E < t)"
    and "hoursOutOfRange E b = (\<exists>h. sh = Some h \<and> (h < 0 \<or> 24 < h))"
proof -
  from assms have n: "b ''name'' = optStr sn" and h: "b ''hours'' = optNum sh"
    and dt: "case st of None \<Rightarrow> b ''date'' = Undefined | Some t \<Rightarrow> dateDenotes E (b ''date'') t"
    by (simp_all add: payloadOf_def)
  show "nameTooShort b = Inr (\<exists>s. sn = Some s \<and> s \<noteq> [] \<and> length (trim s) < 2)"
    using n by (cases sn) (simp_all add: nameTooShort_def)
  show "dateInFuture E b = (\<exists>t. st = Some t \<and> nowCheck E < t)"
  proof (cases st)
    case None
    with dt show ?thesis by (simp add: dateInFuture_def)
  next
    case (Some t)
    with dt have "dateDenotes E (b ''date'') t" by simp
    from dateDenotes_reads [OF this] Some show ?thesis
      by (simp add: dateInFuture_def dateGreater_def)
  qed
  show "hoursOutOfRange E b = (\<exists>h. sh = Some h \<and> (h < 0 \<or> 24 < h))"
    using h by (cases sh) (auto simp: hoursOutOfRange_def numLessEq_def)
qed

lemma payload_updateData:
  assumes "payloadOf E b sn st sh snt"
  shows "buildUpdateData E b =
     Inr \<lparr>upd_name = (case sn of None \<Rightarrow> None | Some s \<Rightarrow> if s = [] then None else Some (trim s)),
          upd_date = (case st of None \<Rightarrow> None | Some t \<Rightarrow> Some (b ''date'')),
          upd_hours = (case sh of None \<Rightarrow> None | Some h \<Rightarrow> if h = 0 then None else Some (Val h)),
          upd_notes = map_option trim snt\<rparr>"
proof -
  from assms have n: "b ''name'' = optStr sn" and h: "b ''hours'' = optNum sh"
    and nt: "b ''notes'' = optStr snt"
    and dt: "case st of None \<Rightarrow> b ''date'' = Undefined | Some t \<Rightarrow> dateDenotes E (b ''date'') t"
    by (simp_all add: payloadOf_def)
  have d: "(if truthy (b ''date'') then Some (b ''date'') else None) =
      (case st of None \<Rightarrow> None | Some t \<Rightarrow> Some (b ''date''))"
  proof (cases st)
    case None
    with dt show ?thesis by simp
  next
    case (Some t)
    with dt have "dateDenotes E (b ''date'') t" by simp
    from dateDenotes_reads [OF this] Some show ?thesis by simp
  qed
  show ?thesis
    unfolding buildUpdateData_def d
    using n h nt by (cases sn; cases sh; cases snt) simp_all
qed

lemma validate_payload_name:
  assumes "\<not> (\<exists>s. sn = Some s \<and> s \<noteq> [] \<and> length (trim s) < 2)"
  shows "validateOpt validateName
           (case sn of None \<Rightarrow> None | Some s \<Rightarrow> if s = [] then None else Some (trim s)) =
         Inr (case sn of None \<Rightarrow> None | Some s \<Rightarrow> if s = [] then None else Some (trim s))"
proof (cases sn)
  case None
  then show ?thesis by simp
next
  case (Some s)
  show ?thesis
  proof (cases "s = []")
    case True
    with Some show ?thesis by simp
  next
    case False
    with Some assms have "2 \<le> length (trim s)"
      by auto
    then have "validateName (trim s) = Inr (trim s)"
      by (auto simp: validateName_def trim_trim)
    with Some False show ?thesis by simp
  qed
qed

lemma validate_payload_date:
  assumes "case st of None \<Rightarrow> b ''date'' = Undefined | Some t \<Rightarrow> dateDenotes E (b ''date'') t"
  shows "validateOpt (validateDate E) (case st of None \<Rightarrow> None | Some t \<Rightarrow> Some (b ''date'')) =
         (if \<exists>t. st = Some t \<and> nowValidate E < t then Inl ValidationError else Inr st)"
proof (cases st)
  case None
  then show ?thesis by simp
next
  case (Some t)
  with assms have "dateDenotes E (b ''date'') t" by simp
  from validateDate_denotes [OF this] Some show ?thesis
    by simp
qed

lemma validate_payload_hours:
  assumes "\<not> (\<exists>h. sh = Some h \<and> (h < 0 \<or> 24 < h))"
  shows "validateOpt (validateHours E)
           (case sh of None \<Rightarrow> None | Some h \<Rightarrow> if h = 0 then None else Some (Val h)) =
         (if \<exists>h. sh = Some h \<and> h \<noteq> 0 \<and> h < rnd E (1 / 10) then Inl ValidationError
          else Inr (case sh of None \<Rightarrow> None | Some h \<Rightarrow> if h = 0 then None else Some h))"
  using assms by (cases sh) (auto simp: validateHours_def)

lemma applyUpdate_patch:
  "applyUpdate E (case sn of None \<Rightarrow> None | Some s \<Rightarrow> if s = [] then None else Some (trim s)) st
     (case sh of None \<Rightarrow> None | Some h \<Rightarrow> if h = 0 then None else Some h)
     (map_option trim (map_option trim snt)) e =
   patchEntry E sn st sh snt e"
  by (cases sn; cases st; cases sh; cases snt) (simp_all add: applyUpdate_def patchEntry_def trim_trim)

lemma put_entry_payload:
  assumes p: "payloadOf E b sn st sh snt"
  shows "put_entry E d i b =
     (if \<exists>s. sn = Some s \<and> s \<noteq> [] \<and> length (trim s) < 2
      then (Response 400 (Message ''Name must be at least 2 characters''), d)
      else if \<exists>t. st = Some t \<and> nowCheck E < t
      then (Response 400 (Message ''Date cannot be in the future''), d)
      else if \<exists>h. sh = Some h \<and> (h < 0 \<or> 24 < h)
      then (Response 400 (Message ''Hours must be between 0 and 24''), d)
      else
        (case castObjectId E i of
           None \<Rightarrow> (Response 500 (Failure ''Error updating entry'' CastError), d)
         | Some c \<Rightarrow>
             if (\<exists>t. st = Some t \<and> nowValidate E < t) \<or>
                (\<exists>h. sh = Some h \<and> h \<noteq> 0 \<and> h < rnd E (1 / 10))
             then (Response 500 (Failure ''Error updating entry'' ValidationError), d)
             else
               (case find (\<lambda>e. oid e = c) d of
                  None \<Rightarrow> (Response 404 (Message ''Entry not found''), d)
                | Some e \<Rightarrow>
                    (Response 200 (Doc (patchEntry E sn st sh snt e)),
                     updateFirst c (patchEntry E sn st sh snt e) d))))"
proof -
  from p have dt:
    "case st of None \<Rightarrow> b ''date'' = Undefined | Some t \<Rightarrow> dateDenotes E (b ''date'') t"
    by (simp add: payloadOf_def)
  note g = payload_guards [OF p]
  show ?thesis
  proof (cases "(\<exists>s. sn = Some s \<and> s \<noteq> [] \<and> length (trim s) < 2) \<or>
      (\<exists>t. st = Some t \<and> nowCheck E < t) \<or> (\<exists>h. sh = Some h \<and> (h < 0 \<or> 24 < h))")
    case True
    then show ?thesis
      by (auto simp: put_entry_def put_entry_try_def g)
  next
    case False
    then have nn: "\<not> (\<exists>s. sn = Some s \<and> s \<noteq> [] \<and> length (trim s) < 2)"
      and nd: "\<not> (\<exists>t. st = Some t \<and> nowCheck E < t)"
      and nh: "\<not> (\<exists>h. sh = Some h \<and> (h < 0 \<or> 24 < h))"
      by blast+
    have f: "findByIdAndUpdate E d i
        \<lparr>upd_name = (case sn of None \<Rightarrow> None | Some s \<Rightarrow> if s = [] then None else Some (trim s)),
         upd_date = (case st of None \<Rightarrow> None | Some t \<Rightarrow> Some (b ''date'')),
         upd_hours = (case sh of None \<Rightarrow> None | Some h \<Rightarrow> if h = 0 then None else Some (Val h)),
         upd_notes = map_option trim snt\<rparr> =
      (case castObjectId E i of
         None \<Rightarrow> Inl CastError
       | Some c \<Rightarrow>
           if (\<exists>t. st = Some t \<and> nowValidate E < t) \<or>
              (\<exists>h. sh = Some h \<and> h \<noteq> 0 \<and> h < rnd E (1 / 10))
           then Inl ValidationError
           else
             (case find (\<lambda>e. oid e = c) d of
                None \<Rightarrow> Inr (None, d)
              | Some e \<Rightarrow>
                  Inr (Some (patchEntry E sn st sh snt e),
                       updateFirst c (patchEntry E sn st sh snt e) d)))"
    proof (cases "castObjectId E i")
      case None
      then show ?thesis
        by (simp add: findByIdAndUpdate_def)
    next
      case (Some c)
      show ?thesis
      proof (cases "find (\<lambda>e. oid e = c) d")
        case None
        with Some show ?thesis
          by (simp add: findByIdAndUpdate_def validate_payload_name [OF nn]
              validate_payload_date [where b = b and st = st and E = E, OF dt]
              validate_payload_hours [OF nh])
      next
        case found: (Some e)
        with Some show ?thesis
          by (simp add: findByIdAndUpdate_def validate_payload_name [OF nn]
              validate_payload_date [where b = b and st = st and E = E, OF dt]
              validate_payload_hours [OF nh] applyUpdate_patch Let_def)
      qed
    qed
    show ?thesis
      using nn nd nh
      by (auto simp: put_entry_def put_entry_try_def g payload_updateData [OF p] f
          split: option.splits)
  qed
qed

lemmas put_eval_defs = env0_def emptyBody_def alice_def put_entry_def put_entry_try_def
  nameTooShort_def dateInFuture_def hoursOutOfRange_def buildUpdateData_def
  findByIdAndUpdate_def applyUpdate_def validateName_def validateDate_def validateHours_def
  castDate_def TimeClip_def newDate_def dateGreater_def numLessEq_def trim_def isWhiteSpace_def
  castHex24_def lowerHex_def isHex24_def hexVal_def Let_def




text \<open>
  C10, as the claim states it, fails: an update with \<open>notes = null\<close> and the name
  \<open>A\<close> is rejected with 400 by the check of the name, before \<open>notes.trim()\<close> is
  reached.
\<close>

theorem put_entry_null_notes_counterexample:
  "status (fst (put_entry env0 [alice] ''65a1b2c3d4e5f60718293a4c''
      (emptyBody(''name'' := Str ''A'', ''notes'' := Null)))) = 400"
  by (simp add: put_eval_defs)

text \<open>
  C10, amended: an update request with \<open>notes = null\<close> never succeeds and leaves the
  collection unchanged; the response is 400 exactly when one of the three checks of the
  handler (name, date, hours) rejects the request first, and 500 otherwise.
\<close>

theorem put_entry_null_notes:
  assumes "b ''notes'' = Null"
  shows "(status (fst (put_entry E d i b)) = 400 \<or> status (fst (put_entry E d i b)) = 500) \<and>
         snd (put_entry E d i b) = d \<and>
         (status (fst (put_entry E d i b)) = 400 \<longleftrightarrow>
            nameTooShort b = Inr True \<or>
            nameTooShort b = Inr False \<and> (dateInFuture E b \<or> hoursOutOfRange E b))"
  unfolding put_entry_null_notes_cases [where b = b, OF assms]
  by (auto split: sum.splits)

theorem put_entry_null_notes_witness:
  "(emptyBody(''notes'' := Null)) ''notes'' = Null \<and>
   status (fst (put_entry env0 [alice] ''65a1b2c3d4e5f60718293a4c''
      (emptyBody(''notes'' := Null)))) = 500 \<and>
   snd (put_entry env0 [alice] ''65a1b2c3d4e5f60718293a4c'' (emptyBody(''notes'' := Null))) = [alice]"
proof -
  let ?b = "emptyBody(''notes'' := Null)"
  have n: "?b ''notes'' = Null"
    by simp
  have g: "nameTooShort ?b = Inr False" "\<not> dateInFuture env0 ?b" "\<not> hoursOutOfRange env0 ?b"
    by (simp_all add: nameTooShort_def dateInFuture_def hoursOutOfRange_def emptyBody_def)
  from put_entry_null_notes [where b = ?b, OF n, of env0 "[alice]" "''65a1b2c3d4e5f60718293a4c''"] g
  have "status (fst (put_entry env0 [alice] ''65a1b2c3d4e5f60718293a4c'' ?b)) = 500 \<and>
      snd (put_entry env0 [alice] ''65a1b2c3d4e5f60718293a4c'' ?b) = [alice]"
    by auto
  with n show ?thesis
    by blast
qed

text \<open>
  C8, as the claim states it, fails: an empty update that falls in the millisecond of the
  previous write finds \<open>updatedAt\<close> equal to the clock and leaves the entry as it was;
  \<open>updatedAt\<close> does not advance.
\<close>

theorem put_entry_empty_payload_counterexample:
  "updatedAt (alice\<lparr>updatedAt := 1700000000003\<rparr>) = nowStamp env0 \<and>
   put_entry env0 [alice\<lparr>updatedAt := 1700000000003\<rparr>] ''65a1b2c3d4e5f60718293a4c'' emptyBody =
     (Response 200 (Doc (alice\<lparr>updatedAt := 1700000000003\<rparr>)),
      [alice\<lparr>updatedAt := 1700000000003\<rparr>])"
  by (simp add: put_eval_defs)

text \<open>
  C8, amended: an update of an existing entry, addressed by an identifier that casts to
  its ObjectId, with a payload in which name, date, hours and notes are all absent, is
  answered with 200 and the entry as stored afterwards; every field of that entry is as
  before except \<open>updatedAt\<close>, which is the clock read by the update, and every other
  entry of the collection is as before, identifiers being unique in the collection. So
  \<open>updatedAt\<close> advances exactly when that reading is later than the stored value.
\<close>

theorem put_entry_empty_payload:
  assumes u: "b ''name'' = Undefined" "b ''date'' = Undefined" "b ''hours'' = Undefined"
      "b ''notes'' = Undefined"
    and c: "castObjectId E i = Some c" and e: "e \<in> set d" "oid e = c"
    and dd: "distinct (map oid d)"
  shows "\<exists>e'. put_entry E d i b =
              (Response 200 (Doc e'), map (\<lambda>x. if oid x = c then e' else x) d) \<and>
            oid e' = oid e \<and> name e' = name e \<and> date e' = date e \<and> hours e' = hours e \<and>
            notes e' = notes e \<and> createdAt e' = createdAt e \<and> updatedAt e' = nowStamp E"
proof -
  have p: "payloadOf E b None None None None"
    using u by (simp add: payloadOf_def)
  have f: "find (\<lambda>e. oid e = c) d = Some e"
    using dd e by (rule find_oid_distinct)
  have "put_entry E d i b =
      (Response 200 (Doc (patchEntry E None None None None e)),
       updateFirst c (patchEntry E None None None None e) d)"
    unfolding put_entry_payload [OF p] using c f by simp
  then have "put_entry E d i b =
      (Response 200 (Doc (patchEntry E None None None None e)),
       map (\<lambda>x. if oid x = c then patchEntry E None None None None e else x) d)"
    by (simp add: updateFirst_distinct [OF dd e])
  then show ?thesis
    by (intro exI [where x = "patchEntry E None None None None e"]) (simp add: patchEntry_def)
qed

theorem put_entry_empty_payload_witness:
  "castObjectId env0 ''65A1B2C3D4E5F60718293A4C'' = Some ''65a1b2c3d4e5f60718293a4c'' \<and>
   alice \<in> set [alice] \<and> oid alice = ''65a1b2c3d4e5f60718293a4c'' \<and>
   distinct (map oid [alice]) \<and>
   put_entry env0 [alice] ''65A1B2C3D4E5F60718293A4C'' emptyBody =
     (Response 200 (Doc (alice\<lparr>updatedAt := 1700000000003\<rparr>)),
      [alice\<lparr>updatedAt := 1700000000003\<rparr>]) \<and>
   updatedAt alice < nowStamp env0"
proof -
  let ?I = "''65A1B2C3D4E5F60718293A4C''"
  let ?i = "''65a1b2c3d4e5f60718293a4c''"
  have u: "emptyBody ''name'' = Undefined" "emptyBody ''date'' = Undefined"
      "emptyBody ''hours'' = Undefined" "emptyBody ''notes'' = Undefined"
    by (simp_all add: emptyBody_def)
  have c: "castObjectId env0 ?I = Some ?i"
    by (rule castObjectId_env0_alice)
  have e: "alice \<in> set [alice]" "oid alice = ?i"
    by (simp_all add: alice_def)
  have dd: "distinct (map oid [alice])"
    by simp
  have s: "nowStamp env0 = 1700000000003" "updatedAt alice < nowStamp env0"
    by (simp_all add: env0_def alice_def)
  from put_entry_empty_payload [where b = emptyBody, OF u c e dd]
  obtain e' where r: "put_entry env0 [alice] ?I emptyBody =
        (Response 200 (Doc e'), map (\<lambda>x. if oid x = ?i then e' else x) [alice])"
    and f: "oid e' = oid alice" "name e' = name alice" "date e' = date alice"
      "hours e' = hours alice" "notes e' = notes alice" "createdAt e' = createdAt alice"
      "updatedAt e' = nowStamp env0"
    by blast
  from f have "e' = alice\<lparr>updatedAt := 1700000000003\<rparr>"
    by (simp add: s(1))
  with r e(2) have "put_entry env0 [alice] ?I emptyBody =
     (Response 200 (Doc (alice\<lparr>updatedAt := 1700000000003\<rparr>)),
      [alice\<lparr>updatedAt := 1700000000003\<rparr>])"
    by simp
  with c e dd s(2) show ?thesis
    by (intro conjI)
qed

subsection \<open>Statistics\<close>

lemma floor_half: "\<lfloor>1 / 2 :: rat\<rfloor> = 0"
  by (simp add: floor_eq_iff)

lemma toFixed1_zero: "toFixed1 0 = 0"
  by (simp add: toFixed1_def floor_half)

text \<open>
  C5: over no entries the statistics are 0 entries, 0 hours, 0 learners, an average of 0
  and the empty leaderboard, with status 200.
\<close>

theorem get_stats_empty:
  "get_stats E [] =
     Response 200 (Stats \<lparr>totalEntries = 0, totalHours = 0, uniqueLearners = 0, avgHours = 0,
                          topLearners = []\<rparr>)"
  by (simp add: get_stats_def sumHours_def average_def countLearners_def toFixed1_zero
      calcTopLearners_def leaderboard_def Object_values_def)









subsection \<open>The leaderboard\<close>

lemma firstSeen_snoc:
  "firstSeen (ns @ [n]) = (if n \<in> set ns then firstSeen ns else firstSeen ns @ [n])"
  by (induction ns) auto

lemma set_firstSeen: "set (firstSeen ns) = set ns"
  by (induction ns) auto

lemma name_image_absurd:
  "name e \<notin> name ` set es \<Longrightarrow> x \<in> set es \<Longrightarrow> name x = name e \<Longrightarrow> False"
  by (metis imageI)

lemma filter_name_fresh:
  "name (e::entry) \<notin> name ` set es \<Longrightarrow> filter (\<lambda>x. name x = name e) es = []"
  by (auto simp: filter_empty_conv dest: name_image_absurd)

lemma groupOf_snoc:
  "groupOf E (es @ [e]) n =
     (if name e = n
      then (groupOf E es n)\<lparr>l_hours := jsAdd E (l_hours (groupOf E es n)) (hours e),
                              l_entries := l_entries (groupOf E es n) + 1\<rparr>
      else groupOf E es n)"
  by (simp add: groupOf_def)

lemma groupOf_fresh:
  "name e \<notin> name ` set es \<Longrightarrow>
   groupOf E (es @ [e]) (name e) =
     \<lparr>l_name = name e, l_hours = jsAdd E 0 (hours e), l_entries = 1\<rparr>"
proof -
  assume "name e \<notin> name ` set es"
  then have "filter (\<lambda>x. name x = name e) es = []"
    by (rule filter_name_fresh)
  then show ?thesis
    by (simp add: groupOf_def)
qed

lemma leaderboard_snoc: "leaderboard E (es @ [e]) = addEntry E (leaderboard E es) e"
  by (simp add: leaderboard_def)

lemma leaderboard_groups:
  assumes "\<forall>e \<in> set entries. name e \<notin> set objectPrototypeKeys"
  shows "leaderboard E entries =
     map (\<lambda>n. (n, groupOf E entries n)) (firstSeen (map name entries))"
  using assms
proof (induction entries rule: rev_induct)
  case Nil
  then show ?case
    by (simp add: leaderboard_def)
next
  case (snoc e es)
  then have ih: "leaderboard E es = map (\<lambda>n. (n, groupOf E es n)) (firstSeen (map name es))"
    and np: "name e \<notin> set objectPrototypeKeys"
    by simp_all
  have keys: "set (map fst (leaderboard E es)) = name ` set es"
    by (simp add: ih set_firstSeen comp_def)
  note keys' = keys [simplified set_map]
  show ?case
  proof (cases "name e \<in> name ` set es")
    case True
    then have "lookupTruthy (leaderboard E es) (name e)"
      by (simp add: lookupTruthy_def keys')
    then have "leaderboard E (es @ [e]) =
        map (\<lambda>n. (n, groupOf E (es @ [e]) n)) (firstSeen (map name es))"
      by (simp add: leaderboard_snoc addEntry_def ih groupOf_snoc comp_def)
    with True show ?thesis
      by (simp add: firstSeen_snoc)
  next
    case False
    then have nl: "\<not> lookupTruthy (leaderboard E es) (name e)"
      using np by (simp add: lookupTruthy_def keys')
    have other: "\<forall>n \<in> set (firstSeen (map name es)). n \<noteq> name e"
      using False by (auto simp: set_firstSeen dest: name_image_absurd)
    have old: "map (\<lambda>(k, g). if k = name e
                    then (k, g\<lparr>l_hours := jsAdd E (l_hours g) (hours e),
                               l_entries := l_entries g + 1\<rparr>)
                    else (k, g)) (map (\<lambda>n. (n, groupOf E es n)) (firstSeen (map name es))) =
        map (\<lambda>n. (n, groupOf E (es @ [e]) n)) (firstSeen (map name es))"
      using other by (auto simp: groupOf_snoc)
    have "leaderboard E (es @ [e]) =
        map (\<lambda>n. (n, groupOf E (es @ [e]) n)) (firstSeen (map name es)) @
        [(name e, groupOf E (es @ [e]) (name e))]"
      using nl by (simp add: leaderboard_snoc addEntry_def old [unfolded ih [symmetric]]
          groupOf_fresh [OF False])
    with False show ?thesis
      by (simp add: firstSeen_snoc image_iff)
  qed
qed

lemma Object_values_plain:
  assumes "\<forall>p \<in> set acc. \<not> isArrayIndex (fst p)"
  shows "Object_values acc = map snd acc"
proof -
  from assms have "filter (\<lambda>p. isArrayIndex (fst p)) acc = []"
    by (simp add: filter_empty_conv)
  moreover from assms have "filter (\<lambda>p. \<not> isArrayIndex (fst p)) acc = acc"
    by (simp add: filter_id_conv)
  ultimately show ?thesis
    by (simp add: Object_values_def)
qed

lemma calcTopLearners_plain:
  assumes "plainNames entries"
  shows "calcTopLearners E entries = spec_topLearners E entries"
proof -
  from assms have "\<forall>e \<in> set entries. plainKey (name e)"
    by (simp add: plainNames_def list_all_iff)
  then have a: "\<forall>e \<in> set entries. name e \<notin> set objectPrototypeKeys"
    and b: "\<forall>e \<in> set entries. \<not> isArrayIndex (name e)"
    by (simp_all add: plainKey_def)
  have lb: "leaderboard E entries =
      map (\<lambda>n. (n, groupOf E entries n)) (firstSeen (map name entries))"
    by (rule leaderboard_groups [OF a])
  have "\<forall>p \<in> set (leaderboard E entries). \<not> isArrayIndex (fst p)"
    using b by (auto simp: lb set_firstSeen)
  then have "Object_values (leaderboard E entries) = map snd (leaderboard E entries)"
    by (rule Object_values_plain)
  also have "\<dots> = spec_groups E entries"
    by (simp add: lb spec_groups_def comp_def)
  finally show ?thesis
    by (simp add: calcTopLearners_def spec_topLearners_def spec_ranking_def)
qed

lemma spec_ranking_sorted:
  "sorted_wrt (\<lambda>a b. l_hours b \<le> l_hours a) (spec_ranking E entries)"
proof -
  have "sorted (map (\<lambda>g. - l_hours g) (spec_ranking E entries))"
    by (simp add: spec_ranking_def)
  then show ?thesis
    by (simp add: sorted_map sorted_wrt_iff_nth_less)
qed

lemma spec_ranking_stable:
  "filter (\<lambda>g. l_hours g = h) (spec_ranking E entries) =
   filter (\<lambda>g. l_hours g = h) (spec_groups E entries)"
  using sort_key_stable [of "\<lambda>g. - l_hours g" "- h" "spec_groups E entries"]
  by (simp add: spec_ranking_def)

lemmas stats_eval_defs = calcTopLearners_def leaderboard_def addEntry_def lookupTruthy_def
  objectPrototypeKeys_def Object_values_def isArrayIndex_def isDigit_def digitsVal_def
  radixVal_def hexVal_def jsAdd_def session_def spec_topLearners_def spec_ranking_def
  spec_groups_def groupOf_def env0_def

text \<open>
  C4, as the claim states it, fails. With the entries of \<open>Bob\<close> (5 hours) and then of
  \<open>10\<close> (5 hours), \<open>Object.values\<close> lists the key \<open>10\<close>, an array index, first, and
  the tie is kept in that order: \<open>10\<close> before \<open>Bob\<close>, against the order of first
  appearance. With an entry of \<open>constructor\<close>, the accumulator finds the inherited
  member, creates no group, and the learner is missing from the leaderboard.
\<close>

theorem calcTopLearners_counterexample:
  "calcTopLearners env0 tiedSessions =
     [\<lparr>l_name = ''10'', l_hours = 5, l_entries = 1\<rparr>, \<lparr>l_name = ''Bob'', l_hours = 5, l_entries = 1\<rparr>] \<and>
   spec_topLearners env0 tiedSessions =
     [\<lparr>l_name = ''Bob'', l_hours = 5, l_entries = 1\<rparr>, \<lparr>l_name = ''10'', l_hours = 5, l_entries = 1\<rparr>] \<and>
   calcTopLearners env0 inheritedSessions = [\<lparr>l_name = ''Bob'', l_hours = 3, l_entries = 1\<rparr>] \<and>
   spec_topLearners env0 inheritedSessions =
     [\<lparr>l_name = ''constructor'', l_hours = 5, l_entries = 1\<rparr>,
      \<lparr>l_name = ''Bob'', l_hours = 3, l_entries = 1\<rparr>]"
  by (simp add: tiedSessions_def inheritedSessions_def stats_eval_defs)

text \<open>
  C4, amended: for every list of entries in which no name is an array index or the name
  of a member inherited from \<open>Object.prototype\<close>, the leaderboard of the statistics is
  the one the specification words: the entries grouped by exact name, each group with its
  total hours and its count, the groups sorted by total hours descending, groups of equal
  total in the order of the first appearance of their names, and the first five of them.
\<close>

theorem calcTopLearners_is_leaderboard:
  assumes "plainNames entries"
  shows "calcTopLearners E entries = spec_topLearners E entries \<and>
         (\<exists>st. get_stats E entries = Response 200 (Stats st) \<and>
               topLearners st = spec_topLearners E entries) \<and>
         sorted_wrt (\<lambda>a b. l_hours b \<le> l_hours a) (spec_ranking E entries) \<and>
         (\<forall>h. filter (\<lambda>g. l_hours g = h) (spec_ranking E entries) =
              filter (\<lambda>g. l_hours g = h) (spec_groups E entries))"
proof -
  have eq: "calcTopLearners E entries = spec_topLearners E entries"
    using assms by (rule calcTopLearners_plain)
  let ?st = "\<lparr>totalEntries = length entries, totalHours = toFixed1 (sumHours E entries),
        uniqueLearners = countLearners entries, avgHours = toFixed1 (average E entries),
        topLearners = spec_topLearners E entries\<rparr>"
  have a: "get_stats E entries = Response 200 (Stats ?st)"
    by (simp add: get_stats_def eq)
  have b: "topLearners ?st = spec_topLearners E entries"
    by simp
  from a b have "\<exists>st. get_stats E entries = Response 200 (Stats st) \<and>
               topLearners st = spec_topLearners E entries"
    by blast
  with eq spec_ranking_sorted [of E entries] spec_ranking_stable [of _ E entries]
  show ?thesis
    by blast
qed

theorem calcTopLearners_is_leaderboard_witness:
  "plainNames threeSessions \<and>
   calcTopLearners env0 threeSessions =
     [\<lparr>l_name = ''A'', l_hours = 5, l_entries = 2\<rparr>, \<lparr>l_name = ''B'', l_hours = 5, l_entries = 1\<rparr>] \<and>
   spec_topLearners env0 threeSessions =
     [\<lparr>l_name = ''A'', l_hours = 5, l_entries = 2\<rparr>, \<lparr>l_name = ''B'', l_hours = 5, l_entries = 1\<rparr>]"
proof -
  have p: "plainNames threeSessions"
    by (simp add: plainNames_def plainKey_def threeSessions_def stats_eval_defs)
  have s: "spec_topLearners env0 threeSessions =
     [\<lparr>l_name = ''A'', l_hours = 5, l_entries = 2\<rparr>, \<lparr>l_name = ''B'', l_hours = 5, l_entries = 1\<rparr>]"
    by (simp add: threeSessions_def stats_eval_defs)
  from calcTopLearners_is_leaderboard [OF p, of env0]
  have "calcTopLearners env0 threeSessions = spec_topLearners env0 threeSessions"
    by blast
  with p s show ?thesis
    by simp
qed

end
